theory Spec2Isabelle
  imports Main "HOL-Library.Sublist"
begin

text \<open>
  A shallow embedding of the storefront client: the search filter of \<open>ProductList\<close>,
  \<open>highlightSearchTerm\<close>, the voice-over handlers of the modals \<open>ImageDescribe\<close>,
  \<open>SmartProductSell\<close> and \<open>FashionAssistant\<close>, their start-over handlers, and the service
  wrappers \<open>SmartSellService\<close> and \<open>FashionService\<close>. React state is passed explicitly:
  a handler takes the state of its component and returns the state after it has run.
  What the browser and the libraries do (strings, regular expressions, speech synthesis,
  \<open>axios\<close>) is modelled beside the code, and said to be so where it is introduced.
  The definitions come first, the properties after them.
\<close>

section \<open>JavaScript strings\<close>

text \<open>
  A JavaScript string is a sequence of UTF-16 code units. The embedding uses \<^typ>\<open>string\<close>,
  whose characters are the 256 code units of the Latin-1 range (U+0000 to U+00FF); a
  \<^typ>\<open>char\<close> stands for the code unit with the same number. Strings holding code units
  above U+00FF are outside this type; the search filter is also given for them, in a
  subsection of its own.
\<close>

definition isWhiteSpace :: "char \<Rightarrow> bool" where
  \<comment> \<open>ECMAScript WhiteSpace and LineTerminator below U+0100: TAB, LF, VT, FF, CR, SP, NBSP.\<close>
  "isWhiteSpace c = (of_char c \<in> {9, 10, 11, 12, 13, 32, 160 :: nat})"

definition trim :: "string \<Rightarrow> string" where
  \<comment> \<open>\<open>String.prototype.trim\<close>: white space removed from both ends.\<close>
  "trim s = rev (dropWhile isWhiteSpace (rev (dropWhile isWhiteSpace s)))"

definition toLowerChar :: "char \<Rightarrow> char" where
  \<comment> \<open>A to Z and the Latin-1 capitals U+00C0 to U+00DE (without the sign U+00D7) move up by 32.\<close>
  "toLowerChar c =
     (let n = of_char c :: nat
      in if (65 \<le> n \<and> n \<le> 90) \<or> (192 \<le> n \<and> n \<le> 222 \<and> n \<noteq> 215)
         then char_of (n + 32) else c)"

definition toLowerCase :: "string \<Rightarrow> string" where
  \<comment> \<open>\<open>String.prototype.toLowerCase\<close>, code unit by code unit.\<close>
  "toLowerCase s = map toLowerChar s"

definition includesStr :: "'c list \<Rightarrow> 'c list \<Rightarrow> bool" where
  \<comment> \<open>\<open>s.includes(q)\<close>: \<open>q\<close> occurs in \<open>s\<close> as a contiguous run of code units.\<close>
  "includesStr s q = sublist q s"

definition truthy :: "'c list \<Rightarrow> bool" where
  \<comment> \<open>A string in a boolean position: only the empty string is falsy.\<close>
  "truthy s = (s \<noteq> [])"

section \<open>The Product entity (types/Product)\<close>

text \<open>
  The interface declares \<open>categories: string[]\<close>, and the components guard every use with
  \<open>product.categories &&\<close>; the field is an option so that the guard has both branches.
  The field \<open>id\<close> is named \<open>id_of\<close> here (\<open>id\<close> is the identity function of HOL).
  The record is given for strings over any type \<open>'c\<close> of code units; \<open>char Product\<close> is the
  product whose strings are of type \<^typ>\<open>string\<close>.
\<close>

record 'c Product =
  id_of :: "'c list"
  name :: "'c list"
  description :: "'c list"
  picture :: "'c list"
  price :: "'c list"
  categories :: "'c list list option"

section \<open>ProductList: the search filter\<close>

definition matchesQuery :: "string \<Rightarrow> char Product \<Rightarrow> bool" where
  \<comment> \<open>The callback given to \<open>products.filter\<close>, lines 21 to 25; \<open>query\<close> is already lower-cased and trimmed.\<close>
  "matchesQuery query product =
     (includesStr (toLowerCase (name product)) query \<or>
      includesStr (toLowerCase (description product)) query \<or>
      (case categories product of
         None \<Rightarrow> False
       | Some cs \<Rightarrow> list_ex (\<lambda>category. includesStr (toLowerCase category) query) cs))"

definition filteredProducts :: "char Product list \<Rightarrow> string \<Rightarrow> char Product list" where
  "filteredProducts products searchQuery =
     (if \<not> truthy (trim searchQuery) then products
      else let query = trim (toLowerCase searchQuery)
           in filter (matchesQuery query) products)"

subsection \<open>The search filter beyond Latin-1\<close>

text \<open>
  On strings with code units above U+00FF \<open>String.prototype.toLowerCase\<close> is no map over
  the code units: it can change the length of a string, and what it does to a letter can
  depend on the letters around it (a capital sigma at the end of a word becomes the final
  sigma). The filter is therefore given once more for strings over any type of code
  units, with the two operations of the engine that depend on the code units as
  parameters: the test \<open>isWhite\<close> that \<open>trim\<close> uses, and \<open>toLower\<close>, any function from strings
  to strings. \<open>includes\<close> and the truth test of a string do not depend on the code units.
  At the Latin-1 code units, with \<open>isWhiteSpace\<close> and \<open>toLowerCase\<close>, this is the filter above.
  \<open>isWhiteSpaceUnit\<close> is the white space of ECMAScript on UTF-16 code units given by
  number.
\<close>

definition isWhiteSpaceUnit :: "int \<Rightarrow> bool" where
  \<comment> \<open>WhiteSpace (TAB, VT, FF, ZWNBSP and the space separators) and LineTerminator (LF, CR, LS, PS).\<close>
  "isWhiteSpaceUnit c =
     (c \<in> {9, 10, 11, 12, 13, 32, 160, 5760, 8232, 8233, 8239, 8287, 12288, 65279} \<or>
      (8192 \<le> c \<and> c \<le> 8202))"

definition trimOn :: "('c \<Rightarrow> bool) \<Rightarrow> 'c list \<Rightarrow> 'c list" where
  \<comment> \<open>\<open>String.prototype.trim\<close>.\<close>
  "trimOn isWhite s = rev (dropWhile isWhite (rev (dropWhile isWhite s)))"

definition matchesQueryOn :: "('c list \<Rightarrow> 'c list) \<Rightarrow> 'c list \<Rightarrow> 'c Product \<Rightarrow> bool" where
  \<comment> \<open>The callback given to \<open>products.filter\<close>, lines 21 to 25.\<close>
  "matchesQueryOn toLower query product =
     (includesStr (toLower (name product)) query \<or>
      includesStr (toLower (description product)) query \<or>
      (case categories product of
         None \<Rightarrow> False
       | Some cs \<Rightarrow> list_ex (\<lambda>category. includesStr (toLower category) query) cs))"

definition filteredProductsOn ::
  "('c \<Rightarrow> bool) \<Rightarrow> ('c list \<Rightarrow> 'c list) \<Rightarrow> 'c Product list \<Rightarrow> 'c list \<Rightarrow> 'c Product list" where
  \<comment> \<open>\<open>filteredProducts\<close>, lines 15 to 26.\<close>
  "filteredProductsOn isWhite toLower products searchQuery =
     (if \<not> truthy (trimOn isWhite searchQuery) then products
      else let query = trimOn isWhite (toLower searchQuery)
           in filter (matchesQueryOn toLower query) products)"

subsection \<open>What the specification calls a case-insensitive substring\<close>

definition sameLetter :: "char \<Rightarrow> char \<Rightarrow> bool" where
  \<comment> \<open>Two code units that differ at most in case.\<close>
  "sameLetter a b = (toLowerChar a = toLowerChar b)"

definition caseInsensitiveSubstring :: "string \<Rightarrow> string \<Rightarrow> bool" where
  \<comment> \<open>Some contiguous piece of \<open>s\<close> reads as \<open>q\<close>, letter for letter, case ignored.\<close>
  "caseInsensitiveSubstring q s =
     (\<exists>pre mid post. s = pre @ mid @ post \<and> list_all2 sameLetter q mid)"

definition categoryLabels :: "'c Product \<Rightarrow> 'c list set" where
  "categoryLabels p = (case categories p of None \<Rightarrow> {} | Some cs \<Rightarrow> set cs)"

definition matchesSearch :: "string \<Rightarrow> char Product \<Rightarrow> bool" where
  \<comment> \<open>The match of the specification: name, or description, or at least one category label.\<close>
  "matchesSearch q p =
     (caseInsensitiveSubstring q (name p) \<or>
      caseInsensitiveSubstring q (description p) \<or>
      (\<exists>c \<in> categoryLabels p. caseInsensitiveSubstring q c))"

definition occursIn :: "'c list \<Rightarrow> 'c list \<Rightarrow> bool" where
  \<comment> \<open>\<open>q\<close> is a substring of \<open>s\<close>.\<close>
  "occursIn q s = (\<exists>pre post. s = pre @ q @ post)"

definition matchesLowered :: "('c list \<Rightarrow> 'c list) \<Rightarrow> 'c list \<Rightarrow> 'c Product \<Rightarrow> bool" where
  \<comment> \<open>The match on lower-cased text: \<open>q\<close> is a substring of the lower-cased name, or of the
      lower-cased description, or of at least one lower-cased category label.\<close>
  "matchesLowered toLower q p =
     (occursIn q (toLower (name p)) \<or>
      occursIn q (toLower (description p)) \<or>
      (\<exists>c \<in> categoryLabels p. occursIn q (toLower c)))"

subsection \<open>A small catalogue for concrete runs\<close>

definition tshirt :: "char Product" where
  "tshirt = \<lparr>id_of = ''P1'', name = ''T-Shirt'', description = ''Soft cotton tee'',
     picture = ''/img/p1.jpg'', price = ''19.90'', categories = Some [''Clothing'', ''Tops'']\<rparr>"

definition sunglasses :: "char Product" where
  "sunglasses = \<lparr>id_of = ''P2'', name = ''Sunglasses'', description = ''Summer shades'',
     picture = ''/img/p2.jpg'', price = ''49.00'', categories = Some [''Accessories'']\<rparr>"

definition mug :: "char Product" where
  "mug = \<lparr>id_of = ''P3'', name = ''Mug'', description = ''Ceramic mug'',
     picture = ''/img/p3.jpg'', price = ''8.50'', categories = None\<rparr>"

text \<open>
  A product with a Greek name, its strings as lists of code units given by number, and
  what \<open>toLowerCase\<close> does on words made of the Greek capitals U+0391 to U+03A9: every
  letter moves up by 32, except a sigma (U+03A3) that ends a word of more than one
  letter, which becomes the final sigma U+03C2 and not U+03C3.
\<close>

definition lowerGreekCapitals :: "int list \<Rightarrow> int list" where
  "lowerGreekCapitals s =
     map (\<lambda>i. let c = s ! i
              in if c = 931 then (if 0 < i \<and> Suc i = length s then 962 else 963)
                 else if (913 \<le> c \<and> c \<le> 929) \<or> (932 \<le> c \<and> c \<le> 937) then c + 32
                 else c)
       [0 ..< length s]"

definition odos :: "int Product" where
  \<comment> \<open>The name is the four capitals omicron, delta, omicron, sigma.\<close>
  "odos = \<lparr>id_of = [80, 52], name = [927, 916, 927, 931], description = [],
     picture = [], price = [], categories = None\<rparr>"

section \<open>searchHighlight: highlightSearchTerm\<close>

text \<open>
  \<open>new RegExp\<close>, \<open>split\<close> and \<open>test\<close> belong to the JavaScript engine. They are modelled on the
  patterns that use no syntax character other than parentheses: such a pattern is a run
  of literal characters with capturing groups around parts of it. A pattern with another
  syntax character is left outside (\<open>NotCovered\<close>), and nothing is said about it.
  With the flag \<open>i\<close> two code units of the Latin-1 range match when they are the same
  letter.
\<close>

definition isSyntaxCharacter :: "char \<Rightarrow> bool" where
  \<comment> \<open>ECMAScript SyntaxCharacter: one of \<open>^ $ \ . * + ? ( ) [ ] { } |\<close>.\<close>
  "isSyntaxCharacter c =
     (c \<in> set [CHR ''^'', CHR ''$'', CHR 0x5C, CHR ''.'', CHR ''*'', CHR ''+'', CHR ''?'',
                CHR ''('', CHR '')'', CHR ''['', CHR '']'', CHR ''{'', CHR ''}'', CHR ''|''])"

definition isParenthesis :: "char \<Rightarrow> bool" where
  "isParenthesis c = (c = CHR ''('' \<or> c = CHR '')'')"

record RegExp =
  literal :: string
  groups :: "(nat \<times> nat) list"

text \<open>
  \<open>literal\<close> is the pattern without its parentheses; \<open>groups\<close> gives, for each capturing
  group in the order of the opening parentheses, where it starts in \<open>literal\<close> and how long
  it is. The parser keeps the groups still open on a stack. A closing parenthesis with no
  group open and the end of the pattern with a group open are the two syntax errors of
  these patterns ("Unmatched ')'" and "Unterminated group").
\<close>

datatype JsError = SyntaxError

fun parsePattern :: "string \<Rightarrow> string \<Rightarrow> (nat \<times> nat) list \<Rightarrow> nat list \<Rightarrow> JsError + RegExp" where
  "parsePattern [] lit gs opened =
     (if opened = [] then Inr \<lparr>literal = lit, groups = gs\<rparr> else Inl SyntaxError)"
| "parsePattern (c # cs) lit gs opened =
     (if c = CHR ''('' then parsePattern cs lit (gs @ [(length lit, 0)]) (length gs # opened)
      else if c = CHR '')'' then
        (case opened of
           [] \<Rightarrow> Inl SyntaxError
         | k # outer \<Rightarrow> parsePattern cs lit (gs[k := (fst (gs ! k), length lit - fst (gs ! k))]) outer)
      else parsePattern cs (lit @ [c]) gs opened)"

datatype Compilation = Thrown JsError | Compiled RegExp | NotCovered

definition newRegExp :: "string \<Rightarrow> Compilation" where
  \<comment> \<open>\<open>new RegExp(pattern, 'gi')\<close>.\<close>
  "newRegExp pattern =
     (if list_ex (\<lambda>c. isSyntaxCharacter c \<and> \<not> isParenthesis c) pattern then NotCovered
      else case parsePattern pattern [] [] [] of
             Inl e \<Rightarrow> Thrown e
           | Inr regex \<Rightarrow> Compiled regex)"

definition matchesAt :: "RegExp \<Rightarrow> string \<Rightarrow> bool" where
  \<comment> \<open>The pattern matches at the start of \<open>s\<close>.\<close>
  "matchesAt regex s =
     (length (literal regex) \<le> length s \<and>
      list_all2 sameLetter (literal regex) (take (length (literal regex)) s))"

definition captures :: "RegExp \<Rightarrow> string \<Rightarrow> string list" where
  \<comment> \<open>What the groups capture in a match at the start of \<open>s\<close>.\<close>
  "captures regex s = map (\<lambda>(start, len). take len (drop start s)) (groups regex)"

text \<open>
  \<open>String.prototype.split\<close> with a regular expression: the subject is read from left to
  right; \<open>pending\<close> is the piece since the last match. At a match (an empty match right
  after the last one does not count) the piece is emitted, then the captures, and reading
  goes on behind the match. The empty subject gives no piece when the pattern matches it
  and one empty piece otherwise.
\<close>

function splitFrom :: "RegExp \<Rightarrow> string \<Rightarrow> string \<Rightarrow> string list" where
  "splitFrom regex pending [] = [pending]"
| "splitFrom regex pending (c # cs) =
     (if matchesAt regex (c # cs) \<and> \<not> (literal regex = [] \<and> pending = [])
      then pending # captures regex (c # cs)
             @ splitFrom regex [] (drop (length (literal regex)) (c # cs))
      else splitFrom regex (pending @ [c]) cs)"
  by pat_completeness auto
termination
proof (relation "measure (\<lambda>(regex, pending, s). 2 * length s + (if pending = [] then 0 else 1))")
  show "wf (measure (\<lambda>(regex, pending, s). 2 * length s + (if pending = [] then 0 else 1)))"
    by simp
next
  fix regex :: RegExp and pending :: string and c :: char and cs :: string
  assume "matchesAt regex (c # cs) \<and> \<not> (literal regex = [] \<and> pending = [])"
  then have "literal regex \<noteq> [] \<or> pending \<noteq> []"
    by blast
  then have "2 * (Suc (length cs) - length (literal regex)) < 2 * Suc (length cs) + (if pending = [] then 0 else 1)"
    by (cases "literal regex") auto
  then show "((regex, [], drop (length (literal regex)) (c # cs)), regex, pending, c # cs)
      \<in> measure (\<lambda>(regex, pending, s). 2 * length s + (if pending = [] then 0 else 1))"
    by simp
next
  fix regex :: RegExp and pending :: string and c :: char and cs :: string
  show "((regex, pending @ [c], cs), regex, pending, c # cs)
      \<in> measure (\<lambda>(regex, pending, s). 2 * length s + (if pending = [] then 0 else 1))"
    by simp
qed

definition split :: "string \<Rightarrow> RegExp \<Rightarrow> string list" where
  "split s regex =
     (if s = [] then (if matchesAt regex [] then [] else [s]) else splitFrom regex [] s)"

text \<open>
  \<open>regex.test(part)\<close> with the flag \<open>g\<close> starts at \<open>lastIndex\<close> and moves it: behind the
  match when there is one, back to 0 when there is none. The result is the answer and the
  new \<open>lastIndex\<close>.
\<close>

definition test :: "RegExp \<Rightarrow> string \<Rightarrow> nat \<Rightarrow> bool \<times> nat" where
  "test regex part lastIndex =
     (if lastIndex > length part then (False, 0)
      else case find (\<lambda>i. matchesAt regex (drop i part)) [lastIndex ..< Suc (length part)] of
             None \<Rightarrow> (False, 0)
           | Some i \<Rightarrow> (True, i + length (literal regex)))"

datatype ReactNode = Plain string | Mark string

fun nodeText :: "ReactNode \<Rightarrow> string" where
  "nodeText (Plain s) = s"
| "nodeText (Mark s) = s"

fun markParts :: "RegExp \<Rightarrow> nat \<Rightarrow> string list \<Rightarrow> ReactNode list" where
  \<comment> \<open>\<open>parts.map(part => regex.test(part) ? <mark>{part}</mark> : part)\<close>, \<open>lastIndex\<close> carried along.\<close>
  "markParts regex lastIndex [] = []"
| "markParts regex lastIndex (part # parts) =
     (case test regex part lastIndex of
        (True, lastIndex') \<Rightarrow> Mark part # markParts regex lastIndex' parts
      | (False, lastIndex') \<Rightarrow> Plain part # markParts regex lastIndex' parts)"

datatype Highlighted = Throws JsError | ReturnsText string | ReturnsNodes "ReactNode list" | Uncovered

definition highlightSearchTerm :: "string \<Rightarrow> string \<Rightarrow> Highlighted" where
  "highlightSearchTerm text searchTerm =
     (if \<not> truthy (trim searchTerm) then ReturnsText text
      else case newRegExp (''('' @ searchTerm @ '')'') of
             Thrown e \<Rightarrow> Throws e
           | NotCovered \<Rightarrow> Uncovered
           | Compiled regex \<Rightarrow> ReturnsNodes (markParts regex 0 (split text regex)))"

section \<open>The browser's speech synthesizer\<close>

text \<open>
  \<open>window.speechSynthesis\<close> belongs to the browser. Its model follows the Web Speech API:
  the page has one queue of utterances; \<open>speak\<close> appends to it; \<open>cancel\<close> removes every
  utterance from it, which also ends the one being spoken, and leaves the paused state as
  it is; \<open>pause\<close> and \<open>resume\<close> set and clear the paused state. The attribute \<open>speaking\<close>
  is true from the moment the first utterance of the queue begins until it is over.
  An utterance is modelled by its text; \<open>rate\<close>, \<open>pitch\<close> and \<open>volume\<close> are written once by
  the components and never read by them.
\<close>

datatype SpeechSynthesisUtterance = SpeechSynthesisUtterance string

record SpeechSynthesis =
  queue :: "SpeechSynthesisUtterance list"
  speaking :: bool
  paused :: bool

definition cancel :: "SpeechSynthesis \<Rightarrow> SpeechSynthesis" where
  "cancel w = w\<lparr>queue := [], speaking := False\<rparr>"

definition speak :: "SpeechSynthesisUtterance \<Rightarrow> SpeechSynthesis \<Rightarrow> SpeechSynthesis" where
  "speak u w = w\<lparr>queue := queue w @ [u]\<rparr>"

definition pause :: "SpeechSynthesis \<Rightarrow> SpeechSynthesis" where
  "pause w = w\<lparr>paused := True\<rparr>"

definition resume :: "SpeechSynthesis \<Rightarrow> SpeechSynthesis" where
  "resume w = w\<lparr>paused := False\<rparr>"

section \<open>The voice-over code of the three modals\<close>

text \<open>
  \<open>ImageDescribe\<close>, \<open>SmartProductSell\<close> and \<open>FashionAssistant\<close> hold the same voice-over
  code: the state \<open>isPlaying\<close>, \<open>isPaused\<close>, \<open>speechSupported\<close>, the reference \<open>speechRef\<close>,
  and four handlers whose bodies differ only in their names and in the text that play
  reads (\<open>result.description\<close> or \<open>result.sell_text\<close>). The record \<open>voice\<close> is that state
  together with the synthesizer the handlers act on; each modal extends it.
\<close>

record voice =
  speechSupported :: bool
  isPlaying :: bool
  isPaused :: bool
  speechRef :: "SpeechSynthesisUtterance option"
  speechSynthesis :: SpeechSynthesis

definition onstart :: "'a voice_scheme \<Rightarrow> 'a voice_scheme" where
  "onstart v = v\<lparr>isPlaying := True, isPaused := False\<rparr>"

definition onend :: "'a voice_scheme \<Rightarrow> 'a voice_scheme" where
  "onend v = v\<lparr>isPlaying := False, isPaused := False\<rparr>"

definition onerror :: "'a voice_scheme \<Rightarrow> 'a voice_scheme" where
  "onerror v = v\<lparr>isPlaying := False, isPaused := False\<rparr>"

definition playVoice :: "string option \<Rightarrow> 'a voice_scheme \<Rightarrow> 'a voice_scheme" where
  \<comment> \<open>\<open>playDescription\<close>, \<open>playRecommendation\<close>, \<open>playAdvice\<close>; the first argument is what
      \<open>result?.description\<close> (or \<open>result?.sell_text\<close>) evaluates to, \<open>None\<close> for \<open>undefined\<close>.\<close>
  "playVoice text v =
     (if \<not> speechSupported v \<or> (case text of None \<Rightarrow> True | Some t \<Rightarrow> \<not> truthy t) then v
      else let w = cancel (speechSynthesis v);
               utterance = SpeechSynthesisUtterance (the text)
           in v\<lparr>speechRef := Some utterance, speechSynthesis := speak utterance w\<rparr>)"

definition pauseVoice :: "'a voice_scheme \<Rightarrow> 'a voice_scheme" where
  \<comment> \<open>\<open>pauseDescription\<close>, \<open>pauseRecommendation\<close>, \<open>pauseAdvice\<close>.\<close>
  "pauseVoice v =
     (if \<not> speechSupported v then v
      else if speaking (speechSynthesis v) \<and> \<not> paused (speechSynthesis v)
           then v\<lparr>speechSynthesis := pause (speechSynthesis v), isPaused := True\<rparr>
           else v)"

definition resumeVoice :: "'a voice_scheme \<Rightarrow> 'a voice_scheme" where
  \<comment> \<open>\<open>resumeDescription\<close>, \<open>resumeRecommendation\<close>, \<open>resumeAdvice\<close>.\<close>
  "resumeVoice v =
     (if \<not> speechSupported v then v
      else if paused (speechSynthesis v)
           then v\<lparr>speechSynthesis := resume (speechSynthesis v), isPaused := False\<rparr>
           else v)"

definition stopVoice :: "'a voice_scheme \<Rightarrow> 'a voice_scheme" where
  \<comment> \<open>\<open>stopDescription\<close>, \<open>stopRecommendation\<close>, \<open>stopAdvice\<close>.\<close>
  "stopVoice v =
     (if \<not> speechSupported v then v
      else v\<lparr>speechSynthesis := cancel (speechSynthesis v), isPlaying := False, isPaused := False\<rparr>)"

subsection \<open>The speech controller as a transition system\<close>

text \<open>
  A modal is mounted with both flags false and no utterance; \<open>speechSupported\<close> is what the
  browser offers. The handlers run when their button is clicked, and a button can be
  clicked only while it is rendered: Play while \<open>speechSupported && !isPlaying\<close>, Pause while
  \<open>speechSupported && isPlaying && !isPaused\<close>, Resume while
  \<open>speechSupported && isPlaying && isPaused\<close>, Stop while \<open>speechSupported && isPlaying\<close>.
  Start over stops the voice at any time. The browser begins the first utterance of the
  queue, ends it or fails it, and calls the utterance's \<open>onstart\<close>, \<open>onend\<close> or \<open>onerror\<close>;
  the events of an utterance removed by \<open>cancel\<close> may arrive later, any time after an
  utterance was made.
\<close>

definition mounted :: "'a voice_scheme \<Rightarrow> bool" where
  "mounted v =
     (\<not> isPlaying v \<and> \<not> isPaused v \<and> speechRef v = None \<and>
      queue (speechSynthesis v) = [] \<and> \<not> speaking (speechSynthesis v))"

definition browserBegins :: "'a voice_scheme \<Rightarrow> 'a voice_scheme" where
  "browserBegins v = onstart (v\<lparr>speechSynthesis := (speechSynthesis v)\<lparr>speaking := True\<rparr>\<rparr>)"

definition dequeue :: "SpeechSynthesis \<Rightarrow> SpeechSynthesis" where
  "dequeue w = w\<lparr>queue := tl (queue w), speaking := False\<rparr>"

definition browserEnds :: "'a voice_scheme \<Rightarrow> 'a voice_scheme" where
  "browserEnds v = onend (v\<lparr>speechSynthesis := dequeue (speechSynthesis v)\<rparr>)"

definition browserFails :: "'a voice_scheme \<Rightarrow> 'a voice_scheme" where
  "browserFails v = onerror (v\<lparr>speechSynthesis := dequeue (speechSynthesis v)\<rparr>)"

inductive reachable :: "'a voice_scheme \<Rightarrow> bool" where
  mount: "mounted v \<Longrightarrow> reachable v"
| clickPlay: "reachable v \<Longrightarrow> speechSupported v \<Longrightarrow> \<not> isPlaying v \<Longrightarrow> reachable (playVoice text v)"
| clickPause: "reachable v \<Longrightarrow> speechSupported v \<Longrightarrow> isPlaying v \<Longrightarrow> \<not> isPaused v \<Longrightarrow>
    reachable (pauseVoice v)"
| clickResume: "reachable v \<Longrightarrow> speechSupported v \<Longrightarrow> isPlaying v \<Longrightarrow> isPaused v \<Longrightarrow>
    reachable (resumeVoice v)"
| clickStop: "reachable v \<Longrightarrow> speechSupported v \<Longrightarrow> isPlaying v \<Longrightarrow> reachable (stopVoice v)"
| startOver: "reachable v \<Longrightarrow> reachable (stopVoice v)"
| begins: "reachable v \<Longrightarrow> queue (speechSynthesis v) \<noteq> [] \<Longrightarrow> \<not> speaking (speechSynthesis v) \<Longrightarrow>
    \<not> paused (speechSynthesis v) \<Longrightarrow> reachable (browserBegins v)"
| ends: "reachable v \<Longrightarrow> speaking (speechSynthesis v) \<Longrightarrow> reachable (browserEnds v)"
| fails: "reachable v \<Longrightarrow> queue (speechSynthesis v) \<noteq> [] \<Longrightarrow> reachable (browserFails v)"
| lateEnd: "reachable v \<Longrightarrow> speechRef v \<noteq> None \<Longrightarrow> reachable (onend v)"
| lateError: "reachable v \<Longrightarrow> speechRef v \<noteq> None \<Longrightarrow> reachable (onerror v)"
| otherState: "reachable v \<Longrightarrow> reachable (voice.more_update f v)"

section \<open>The HTTP service wrappers\<close>

text \<open>
  \<open>axios.post\<close> is the environment: a function from the URL, the form body and the headers
  to either a failure or a response. \<open>API_BASE_URL\<close> is fixed when the module is loaded
  and is a parameter here. A \<open>File\<close> is modelled by its name. The field \<open>text\<close> of
  \<open>SmartSellRequest\<close> is named \<open>text_of\<close>.
\<close>

datatype File = File string

datatype FormDataEntryValue = FileEntry File | StringEntry string

type_synonym FormData = "(string \<times> FormDataEntryValue) list"

definition appendEntry :: "FormData \<Rightarrow> string \<Rightarrow> FormDataEntryValue \<Rightarrow> FormData" where
  \<comment> \<open>\<open>formData.append(name, value)\<close>: a new entry at the end.\<close>
  "appendEntry formData entryName v = formData @ [(entryName, v)]"

datatype AxiosError = AxiosError string

record 'd AxiosResponse =
  status :: nat
  data :: 'd

type_synonym 'd axiosPost =
  "string \<Rightarrow> FormData \<Rightarrow> (string \<times> string) list \<Rightarrow> AxiosError + 'd AxiosResponse"

record SmartSellRequest =
  image :: File
  text_of :: string
  model_name :: "string option"
  stream :: "bool option"

record SmartSellResponse =
  image_id :: string
  sell_text :: string
  image_base64 :: string
  product_id :: string
  product_name :: string

definition toString :: "bool \<Rightarrow> string" where
  "toString b = (if b then ''true'' else ''false'')"

definition smartSellFormData :: "SmartSellRequest \<Rightarrow> FormData" where
  \<comment> \<open>Lines 32 to 36: the local \<open>formData\<close> after the four calls of \<open>append\<close>.\<close>
  "smartSellFormData params =
     (let formData = [];
          formData = appendEntry formData ''image'' (FileEntry (image params));
          formData = appendEntry formData ''text'' (StringEntry (text_of params));
          formData = appendEntry formData ''model_name''
            (StringEntry (case model_name params of
               None \<Rightarrow> ''gemini-1.5-pro''
             | Some m \<Rightarrow> if truthy m then m else ''gemini-1.5-pro''));
          formData = appendEntry formData ''stream''
            (StringEntry (toString (case stream params of None \<Rightarrow> False | Some b \<Rightarrow> b \<or> False)))
      in formData)"

definition multipartHeaders :: "(string \<times> string) list" where
  "multipartHeaders = [(''Content-Type'', ''multipart/form-data'')]"

definition getProductRecommendation ::
  "'d axiosPost \<Rightarrow> string \<Rightarrow> SmartSellRequest \<Rightarrow> AxiosError + 'd" where
  \<comment> \<open>\<open>SmartSellService.getProductRecommendation\<close>; a rejected \<open>axios.post\<close> is not caught here.\<close>
  "getProductRecommendation post API_BASE_URL params =
     (case post (API_BASE_URL @ ''/sell-product-from-query'') (smartSellFormData params)
             multipartHeaders of
        Inl e \<Rightarrow> Inl e
      | Inr response \<Rightarrow> Inr (data response))"

record FashionAssistantResponse =
  image_id :: string
  description :: string

definition getFashionAdvice :: "'d axiosPost \<Rightarrow> string \<Rightarrow> File \<Rightarrow> AxiosError + 'd" where
  \<comment> \<open>\<open>FashionService.getFashionAdvice\<close>.\<close>
  "getFashionAdvice post API_BASE_URL img =
     (case post (API_BASE_URL @ ''/assistant-fashion'') (appendEntry [] ''image'' (FileEntry img))
             multipartHeaders of
        Inl e \<Rightarrow> Inl e
      | Inr response \<Rightarrow> Inr (data response))"

section \<open>The view state kept by the hooks\<close>

text \<open>
  The modals take \<open>isLoading\<close>, \<open>error\<close>, \<open>result\<close> (and \<open>altText\<close> in \<open>ImageDescribe\<close>) from the
  hooks \<open>useSmartSell\<close>, \<open>useFashion\<close> and \<open>useDescribe\<close>, together with the functions that
  start a request and \<open>reset\<close>. The hooks themselves are not among the sources; their
  state is the record below, and their functions are modelled as the specification
  describes them.
\<close>

record 'r hook =
  isLoading :: bool
  error :: "string option"
  result :: "'r option"

record 'r describeHook = "'r hook" +
  altText :: "string option"

text \<open>
  Modelled from the spec: \<open>reset\<close> of the hooks \<open>useSmartSell\<close>, \<open>useFashion\<close> and \<open>useDescribe\<close>
  (the directory \<open>hooks\<close> is missing). Section 3: the AI response payloads (description text,
  alt text, recommendation text, identifiers) are held only in local view state and
  discarded when "start over" is invoked. The error is cleared with them: the button
  Try Again of the error panel calls \<open>reset\<close>.
\<close>

definition reset :: "('r, 'a) hook_scheme \<Rightarrow> ('r, 'a) hook_scheme" where
  \<comment> \<open>Modelled from the spec: \<open>reset\<close> of \<open>useSmartSell\<close> and \<open>useFashion\<close> (missing); section 3.\<close>
  "reset h = h\<lparr>error := None, result := None\<rparr>"

definition resetDescribe :: "('r, 'a) describeHook_scheme \<Rightarrow> ('r, 'a) describeHook_scheme" where
  \<comment> \<open>Modelled from the spec: \<open>reset\<close> of \<open>useDescribe\<close> (missing); section 3 names the alt text.\<close>
  "resetDescribe h = (reset h)\<lparr>altText := None\<rparr>"

text \<open>
  Modelled from the spec: the request functions of the hooks (\<open>getRecommendation\<close> of
  \<open>useSmartSell\<close>, \<open>getFashionAdvice\<close> of \<open>useFashion\<close>; the directory \<open>hooks\<close> is missing).
  Section 7: errors are caught at the request boundary and surfaced as a plain string in
  view state. Section 4: the wrappers return parsed JSON or surface the transport error
  string for display. Section 8 (c): a failed HTTP call surfaces a non-empty error message
  and leaves prior result state unchanged. The specification does not give the text shown
  for a transport error whose own message is empty; the model shows a fixed text then.
\<close>

definition errorMessage :: "AxiosError \<Rightarrow> string" where
  \<comment> \<open>Modelled from the spec: the string surfaced for a transport error; sections 4 and 8 (c).\<close>
  "errorMessage e = (case e of AxiosError m \<Rightarrow> if truthy m then m else ''Request failed'')"

definition settle :: "AxiosError + 'r \<Rightarrow> ('r, 'a) hook_scheme \<Rightarrow> ('r, 'a) hook_scheme" where
  \<comment> \<open>Modelled from the spec: what a hook does with the outcome of its request; sections 7 and 8 (c).\<close>
  "settle outcome h =
     (case outcome of
        Inl e \<Rightarrow> h\<lparr>isLoading := False, error := Some (errorMessage e)\<rparr>
      | Inr r \<Rightarrow> h\<lparr>isLoading := False, error := None, result := Some r\<rparr>)"

definition getRecommendation ::
  "SmartSellResponse axiosPost \<Rightarrow> string \<Rightarrow> SmartSellRequest \<Rightarrow>
     (SmartSellResponse, 'a) hook_scheme \<Rightarrow> (SmartSellResponse, 'a) hook_scheme" where
  \<comment> \<open>Modelled from the spec: \<open>getRecommendation\<close> of \<open>useSmartSell\<close> (missing); section 7.\<close>
  "getRecommendation post API_BASE_URL params h =
     settle (getProductRecommendation post API_BASE_URL params) h"

definition getFashionAdviceHook ::
  "FashionAssistantResponse axiosPost \<Rightarrow> string \<Rightarrow> File \<Rightarrow>
     (FashionAssistantResponse, 'a) hook_scheme \<Rightarrow> (FashionAssistantResponse, 'a) hook_scheme" where
  \<comment> \<open>Modelled from the spec: \<open>getFashionAdvice\<close> of \<open>useFashion\<close> (missing); section 7.\<close>
  "getFashionAdviceHook post API_BASE_URL img h =
     settle (getFashionAdvice post API_BASE_URL img) h"

section \<open>The three modals\<close>

text \<open>
  \<open>DescribeResponse\<close> and \<open>DescribeType\<close> are declared in \<open>services/describeService\<close>, which
  is missing; \<open>ImageDescribe\<close> reads \<open>result.description\<close> and \<open>result.image_id\<close>, and offers
  the types \<open>product\<close> and \<open>person\<close>.
\<close>

record DescribeResponse =
  description :: string
  image_id :: string

datatype DescribeType = ProductType | PersonType

record ImageDescribe = voice +
  selectedImage :: "File option"
  describeType :: DescribeType
  copySuccessDescription :: bool
  copySuccessAlt :: bool
  isLoadingProductImage :: bool
  useDescribe :: "DescribeResponse describeHook"

definition playDescription :: "ImageDescribe \<Rightarrow> ImageDescribe" where
  "playDescription d =
     playVoice (map_option DescribeResponse.description (result (useDescribe d))) d"

definition pauseDescription :: "ImageDescribe \<Rightarrow> ImageDescribe" where
  "pauseDescription d = pauseVoice d"

definition resumeDescription :: "ImageDescribe \<Rightarrow> ImageDescribe" where
  "resumeDescription d = resumeVoice d"

definition stopDescription :: "ImageDescribe \<Rightarrow> ImageDescribe" where
  "stopDescription d = stopVoice d"

definition handleReset :: "ImageDescribe \<Rightarrow> ImageDescribe" where
  "handleReset d =
     (let d = d\<lparr>useDescribe := resetDescribe (useDescribe d)\<rparr>;
          d = stopDescription d
      in d\<lparr>selectedImage := None, copySuccessDescription := False, copySuccessAlt := False\<rparr>)"

record FashionAssistant = voice +
  userImage :: "File option"
  copySuccess :: bool
  useFashion :: "FashionAssistantResponse hook"

definition playAdvice :: "FashionAssistant \<Rightarrow> FashionAssistant" where
  "playAdvice a =
     playVoice (map_option FashionAssistantResponse.description (result (useFashion a))) a"

definition pauseAdvice :: "FashionAssistant \<Rightarrow> FashionAssistant" where
  "pauseAdvice a = pauseVoice a"

definition resumeAdvice :: "FashionAssistant \<Rightarrow> FashionAssistant" where
  "resumeAdvice a = resumeVoice a"

definition stopAdvice :: "FashionAssistant \<Rightarrow> FashionAssistant" where
  "stopAdvice a = stopVoice a"

definition handleStartOver_FashionAssistant :: "FashionAssistant \<Rightarrow> FashionAssistant" where
  \<comment> \<open>\<open>handleStartOver\<close> of \<open>FashionAssistant\<close>.\<close>
  "handleStartOver_FashionAssistant a =
     (let a = a\<lparr>useFashion := reset (useFashion a)\<rparr>;
          a = stopAdvice a
      in a\<lparr>FashionAssistant.userImage := None\<rparr>)"

record SmartProductSell = voice +
  userImage :: "File option"
  queryText :: string
  copySuccess :: bool
  useSmartSell :: "SmartSellResponse hook"

definition playRecommendation :: "SmartProductSell \<Rightarrow> SmartProductSell" where
  "playRecommendation m = playVoice (map_option sell_text (result (useSmartSell m))) m"

definition pauseRecommendation :: "SmartProductSell \<Rightarrow> SmartProductSell" where
  "pauseRecommendation m = pauseVoice m"

definition resumeRecommendation :: "SmartProductSell \<Rightarrow> SmartProductSell" where
  "resumeRecommendation m = resumeVoice m"

definition stopRecommendation :: "SmartProductSell \<Rightarrow> SmartProductSell" where
  "stopRecommendation m = stopVoice m"

definition handleStartOver :: "SmartProductSell \<Rightarrow> SmartProductSell" where
  \<comment> \<open>\<open>handleStartOver\<close> of \<open>SmartProductSell\<close>.\<close>
  "handleStartOver m =
     (let m = m\<lparr>useSmartSell := reset (useSmartSell m)\<rparr>;
          m = stopRecommendation m
      in m\<lparr>SmartProductSell.userImage := None, queryText := ''''\<rparr>)"

subsection \<open>Concrete modal states for concrete runs\<close>

definition idleSynthesis :: SpeechSynthesis where
  "idleSynthesis = \<lparr>queue = [], speaking = False, paused = False\<rparr>"

definition describeShown :: ImageDescribe where
  \<comment> \<open>\<open>ImageDescribe\<close> showing a result, voice idle, in a browser that has speech synthesis.\<close>
  "describeShown =
     \<lparr>speechSupported = True, isPlaying = False, isPaused = False, speechRef = None,
      speechSynthesis = idleSynthesis,
      selectedImage = Some (File ''shoe.jpg''), describeType = ProductType,
      copySuccessDescription = False, copySuccessAlt = True, isLoadingProductImage = False,
      useDescribe = \<lparr>isLoading = False, error = None,
        result = Some \<lparr>DescribeResponse.description = ''A red shoe'',
                       DescribeResponse.image_id = ''img-1''\<rparr>,
        altText = Some ''Red shoe''\<rparr>\<rparr>"

definition sellShown :: SmartProductSell where
  \<comment> \<open>\<open>SmartProductSell\<close> showing a recommendation, voice idle.\<close>
  "sellShown =
     \<lparr>speechSupported = True, isPlaying = False, isPaused = False, speechRef = None,
      speechSynthesis = idleSynthesis,
      SmartProductSell.userImage = Some (File ''me.jpg''), queryText = ''sunglasses for summer'',
      SmartProductSell.copySuccess = False,
      useSmartSell = \<lparr>isLoading = False, error = None,
        result = Some \<lparr>SmartSellResponse.image_id = ''img-2'', sell_text = ''These shades suit you'',
                       image_base64 = ''AAAA'', product_id = ''P2'',
                       product_name = ''Sunglasses''\<rparr>\<rparr>\<rparr>"

definition fashionShown :: FashionAssistant where
  \<comment> \<open>\<open>FashionAssistant\<close> showing advice, voice idle.\<close>
  "fashionShown =
     \<lparr>speechSupported = True, isPlaying = False, isPaused = False, speechRef = None,
      speechSynthesis = idleSynthesis,
      FashionAssistant.userImage = Some (File ''me.jpg''), FashionAssistant.copySuccess = False,
      useFashion = \<lparr>isLoading = False, error = None,
        result = Some \<lparr>FashionAssistantResponse.image_id = ''img-3'',
                       FashionAssistantResponse.description = ''Wear it with jeans''\<rparr>\<rparr>\<rparr>"

definition describeSpeaking :: ImageDescribe where
  \<comment> \<open>Play was clicked and the browser has begun to speak.\<close>
  "describeSpeaking = browserBegins (playDescription describeShown)"

definition sellSpeaking :: SmartProductSell where
  "sellSpeaking = browserBegins (playRecommendation sellShown)"

definition smartSellRequest :: SmartSellRequest where
  \<comment> \<open>A request that leaves \<open>model_name\<close> and \<open>stream\<close> out.\<close>
  "smartSellRequest = \<lparr>image = File ''me.jpg'', text_of = ''sunglasses for summer'',
     model_name = None, stream = None\<rparr>"

definition smartSellRequestChosen :: SmartSellRequest where
  \<comment> \<open>A request that names another model and asks for streaming.\<close>
  "smartSellRequestChosen = \<lparr>image = File ''me.jpg'', text_of = ''an elegant shirt'',
     model_name = Some ''gemini-2.0-flash'', stream = Some True\<rparr>"

definition smartSellRequestOfModal :: SmartSellRequest where
  \<comment> \<open>The request \<open>handleGetRecommendation\<close> of \<open>SmartProductSell\<close> makes (lines 126 to 131).\<close>
  "smartSellRequestOfModal = \<lparr>image = File ''me.jpg'', text_of = ''sunglasses for summer'',
     model_name = Some ''gemini-1.5-pro'', stream = Some False\<rparr>"

definition smartSellAnswer :: SmartSellResponse where
  "smartSellAnswer = \<lparr>SmartSellResponse.image_id = ''img-2'', sell_text = ''These shades suit you'',
     image_base64 = ''AAAA'', product_id = ''P2'', product_name = ''Sunglasses''\<rparr>"

definition postSucceeds :: "SmartSellResponse axiosPost" where
  "postSucceeds url body headers = Inr \<lparr>status = 200, data = smartSellAnswer\<rparr>"

definition postFails :: "SmartSellResponse axiosPost" where
  "postFails url body headers = Inl (AxiosError ''Network Error'')"

section \<open>Properties of the search filter\<close>

lemma filteredProducts_blank:
  "trim q = [] \<Longrightarrow> filteredProducts ps q = ps"
  by (simp add: filteredProducts_def truthy_def)

lemma trim_all_white:
  assumes "list_all isWhiteSpace q"
  shows "trim q = []"
proof -
  from assms have "dropWhile isWhiteSpace q = []"
    by (simp add: list_all_iff)
  then show ?thesis
    by (simp only: trim_def rev.simps dropWhile.simps)
qed

lemma isWhiteSpace_toLowerChar:
  "isWhiteSpace (toLowerChar c) = isWhiteSpace c"
  by (auto simp: isWhiteSpace_def toLowerChar_def Let_def)

lemma trim_toLowerCase:
  "trim (toLowerCase q) = toLowerCase (trim q)"
  by (simp add: trim_def toLowerCase_def dropWhile_map rev_map comp_def
      isWhiteSpace_toLowerChar)

lemma same_letters_iff:
  "list_all2 sameLetter xs ys \<longleftrightarrow> toLowerCase xs = toLowerCase ys"
proof -
  have "sameLetter = (\<lambda>a b. toLowerChar a = toLowerChar b)"
    by (simp add: fun_eq_iff sameLetter_def)
  then have "list_all2 sameLetter xs ys
      \<longleftrightarrow> list_all2 (=) (map toLowerChar xs) (map toLowerChar ys)"
    by (simp add: list.rel_map)
  then show ?thesis
    by (simp add: list.rel_eq toLowerCase_def)
qed

lemma caseInsensitiveSubstring_iff:
  "caseInsensitiveSubstring q s \<longleftrightarrow> includesStr (toLowerCase s) (toLowerCase q)"
proof
  assume "caseInsensitiveSubstring q s"
  then obtain pre mid post where s: "s = pre @ mid @ post" and m: "list_all2 sameLetter q mid"
    unfolding caseInsensitiveSubstring_def by blast
  from m have "toLowerCase mid = toLowerCase q"
    by (simp add: same_letters_iff)
  with s have "toLowerCase s = toLowerCase pre @ toLowerCase q @ toLowerCase post"
    by (simp add: toLowerCase_def)
  then show "includesStr (toLowerCase s) (toLowerCase q)"
    unfolding includesStr_def sublist_def by blast
next
  assume "includesStr (toLowerCase s) (toLowerCase q)"
  then obtain ps ss where "map toLowerChar s = ps @ map toLowerChar q @ ss"
    unfolding includesStr_def sublist_def toLowerCase_def by blast
  then have "\<exists>pre rest. s = pre @ rest \<and> ps = map toLowerChar pre
      \<and> map toLowerChar q @ ss = map toLowerChar rest"
    by (simp only: map_eq_append_conv)
  then obtain pre rest where s1: "s = pre @ rest"
    and r: "map toLowerChar rest = map toLowerChar q @ ss"
    by metis
  from r have "\<exists>mid post. rest = mid @ post \<and> map toLowerChar q = map toLowerChar mid
      \<and> ss = map toLowerChar post"
    by (simp only: map_eq_append_conv)
  then obtain mid post where s2: "rest = mid @ post"
    and m: "map toLowerChar mid = map toLowerChar q"
    by metis
  from m have "list_all2 sameLetter q mid"
    by (simp add: same_letters_iff toLowerCase_def)
  with s1 s2 show "caseInsensitiveSubstring q s"
    unfolding caseInsensitiveSubstring_def by blast
qed

lemma matchesQuery_iff:
  "matchesQuery (toLowerCase q) p \<longleftrightarrow> matchesSearch q p"
  by (cases "categories p")
    (simp_all add: matchesQuery_def matchesSearch_def categoryLabels_def
      caseInsensitiveSubstring_iff list_ex_iff)

lemma matchesQuery_eq:
  "matchesQuery (toLowerCase q) = matchesSearch q"
  by (simp add: fun_eq_iff matchesQuery_iff)

text \<open>
  C2. When the search query is empty or holds white space only, the search filter returns
  the whole product list, unchanged.
\<close>

theorem filteredProducts_empty_query:
  "list_all isWhiteSpace searchQuery \<Longrightarrow> filteredProducts products searchQuery = products"
  by (rule filteredProducts_blank) (rule trim_all_white)

theorem filteredProducts_empty_query_witness:
  "list_all isWhiteSpace [CHR 0x20, CHR 0x09] \<and>
   filteredProducts [tshirt, sunglasses, mug] [CHR 0x20, CHR 0x09] = [tshirt, sunglasses, mug]"
  using filteredProducts_empty_query [of "[CHR 0x20, CHR 0x09]" "[tshirt, sunglasses, mug]"]
  by (simp add: isWhiteSpace_def)

lemma filteredProducts_latin1:
  "trim searchQuery \<noteq> [] \<Longrightarrow>
     filteredProducts products searchQuery = filter (matchesSearch (trim searchQuery)) products"
proof -
  assume "trim searchQuery \<noteq> []"
  then have "filteredProducts products searchQuery
      = filter (matchesQuery (toLowerCase (trim searchQuery))) products"
    by (simp add: filteredProducts_def truthy_def trim_toLowerCase)
  also have "\<dots> = filter (matchesSearch (trim searchQuery)) products"
    by (simp only: matchesQuery_eq)
  finally show ?thesis .
qed

lemma trimOn_isWhiteSpace:
  "trimOn isWhiteSpace = trim"
  by (simp add: fun_eq_iff trimOn_def trim_def)

lemma matchesQueryOn_toLowerCase:
  "matchesQueryOn toLowerCase = matchesQuery"
  by (simp add: fun_eq_iff matchesQueryOn_def matchesQuery_def)

text \<open>The filter over any code units, taken at Latin-1, is the filter on \<^typ>\<open>string\<close>.\<close>

lemma filteredProductsOn_latin1:
  "filteredProductsOn isWhiteSpace toLowerCase = filteredProducts"
  by (simp add: fun_eq_iff filteredProductsOn_def filteredProducts_def truthy_def
      trimOn_isWhiteSpace matchesQueryOn_toLowerCase)

lemma occursIn_iff:
  "occursIn q s \<longleftrightarrow> sublist q s"
  by (simp add: occursIn_def sublist_def)

lemma matchesQueryOn_eq:
  "matchesQueryOn toLower q = matchesLowered toLower q"
proof
  fix p :: "'a Product"
  show "matchesQueryOn toLower q p = matchesLowered toLower q p"
    by (cases "categories p")
      (simp_all add: matchesQueryOn_def matchesLowered_def categoryLabels_def occursIn_iff
        includesStr_def list_ex_iff)
qed

lemma filteredProductsOn_lowered:
  "trimOn isWhite searchQuery \<noteq> [] \<Longrightarrow>
     filteredProductsOn isWhite toLower products searchQuery
       = filter (matchesLowered toLower (trimOn isWhite (toLower searchQuery))) products"
  by (simp add: filteredProductsOn_def truthy_def matchesQueryOn_eq)

text \<open>
  C1, as the code has it. When the trimmed search query is not empty, the search filter
  returns, in catalogue order, exactly the products for which the query, lower-cased by
  \<open>toLowerCase\<close> and trimmed, is a substring of the lower-cased name, of the lower-cased
  description, or of at least one lower-cased category label; this holds for strings of
  any code units and whatever \<open>toLowerCase\<close> does to them. For text of the Latin-1 range it
  says that the trimmed query is a case-insensitive substring of the name, of the
  description, or of at least one category label.
\<close>

theorem filteredProducts_exact:
  "(trimOn isWhite query \<noteq> [] \<longrightarrow>
      filteredProductsOn isWhite toLower catalogue query
        = filter (matchesLowered toLower (trimOn isWhite (toLower query))) catalogue) \<and>
   (trim searchQuery \<noteq> [] \<longrightarrow>
      filteredProducts products searchQuery = filter (matchesSearch (trim searchQuery)) products)"
  by (simp add: filteredProductsOn_lowered filteredProducts_latin1)

theorem filteredProducts_exact_witness:
  "trimOn isWhiteSpaceUnit [927, 916 :: int] \<noteq> [] \<and>
   filteredProductsOn isWhiteSpaceUnit lowerGreekCapitals [odos] [927, 916]
     = filter (matchesLowered lowerGreekCapitals
         (trimOn isWhiteSpaceUnit (lowerGreekCapitals [927, 916]))) [odos] \<and>
   filteredProductsOn isWhiteSpaceUnit lowerGreekCapitals [odos] [927, 916] = [odos] \<and>
   trim ''shirt '' \<noteq> [] \<and>
   filteredProducts [tshirt, sunglasses, mug] ''shirt '' = [tshirt] \<and>
   filter (matchesSearch (trim ''shirt '')) [tshirt, sunglasses, mug] = [tshirt]"
proof -
  have greek: "trimOn isWhiteSpaceUnit [927, 916] \<noteq> ([] :: int list)"
    by (simp add: trimOn_def isWhiteSpaceUnit_def)
  have kept: "filteredProductsOn isWhiteSpaceUnit lowerGreekCapitals [odos] [927, 916] = [odos]"
    by code_simp
  have query: "trim ''shirt '' \<noteq> []"
    by (simp add: trim_def isWhiteSpace_def)
  have found: "filteredProducts [tshirt, sunglasses, mug] ''shirt '' = [tshirt]"
    by code_simp
  from filteredProducts_exact [of isWhiteSpaceUnit "[927, 916]" lowerGreekCapitals "[odos]"
      "''shirt ''" "[tshirt, sunglasses, mug]"] greek query
  have 1: "filteredProductsOn isWhiteSpaceUnit lowerGreekCapitals [odos] [927, 916]
      = filter (matchesLowered lowerGreekCapitals
          (trimOn isWhiteSpaceUnit (lowerGreekCapitals [927, 916]))) [odos]"
    and 2: "filteredProducts [tshirt, sunglasses, mug] ''shirt ''
      = filter (matchesSearch (trim ''shirt '')) [tshirt, sunglasses, mug]"
    by blast+
  from 2 found have "filter (matchesSearch (trim ''shirt '')) [tshirt, sunglasses, mug] = [tshirt]"
    by (simp only:)
  with greek 1 kept query found show ?thesis
    by (simp only: simp_thms)
qed

text \<open>
  Beyond Latin-1 the match on lower-cased text is not case-insensitive search. The query
  sigma occurs in the name of \<open>odos\<close> as it is written, yet the filter drops the product:
  the name ends in the final sigma once lower-cased, and the query does not.
\<close>

lemma final_sigma_not_found:
  "trimOn isWhiteSpaceUnit [931 :: int] \<noteq> [] \<and>
   sublist [931] (name odos) \<and>
   lowerGreekCapitals (name odos) = [959, 948, 959, 962] \<and>
   lowerGreekCapitals [931] = [963] \<and>
   filteredProductsOn isWhiteSpaceUnit lowerGreekCapitals [odos] [931] = []"
proof -
  have "trimOn isWhiteSpaceUnit [931] \<noteq> ([] :: int list)"
    by (simp add: trimOn_def isWhiteSpaceUnit_def)
  moreover have "sublist [931] (name odos)"
    by code_simp
  moreover have "lowerGreekCapitals (name odos) = [959, 948, 959, 962]"
    by code_simp
  moreover have "lowerGreekCapitals [931] = [963]"
    by code_simp
  moreover have "filteredProductsOn isWhiteSpaceUnit lowerGreekCapitals [odos] [931] = []"
    by code_simp
  ultimately show ?thesis
    by (simp only: simp_thms)
qed

text \<open>
  C1, as stated, takes the query itself as the substring. With a trailing blank the code
  still finds the T-shirt, which the untrimmed query does not occur in.
\<close>

theorem filteredProducts_untrimmed_counterexample:
  "trim ''shirt '' \<noteq> [] \<and>
   filteredProducts [tshirt] ''shirt '' = [tshirt] \<and>
   filter (matchesSearch ''shirt '') [tshirt] = []"
proof -
  have "trim ''shirt '' \<noteq> []"
    by (simp add: trim_def isWhiteSpace_def)
  moreover have "filteredProducts [tshirt] ''shirt '' = [tshirt]"
    by code_simp
  moreover have "\<not> matchesQuery (toLowerCase ''shirt '') tshirt"
    by code_simp
  then have "filter (matchesSearch ''shirt '') [tshirt] = []"
    by (simp add: matchesQuery_iff)
  ultimately show ?thesis
    by simp
qed

text \<open>
  C7. The search filter hands back products of the input list, in their input order and
  as they are: the output is a subsequence of the input, that is, the input read at an
  increasing set of positions. Every field of a returned product is the field of the input
  product at that position.
\<close>

theorem filteredProducts_subseq:
  "subseq (filteredProducts products searchQuery) products \<and>
   (\<exists>N. filteredProducts products searchQuery = nths products N)"
proof -
  have "subseq (filteredProducts products searchQuery) products"
    by (simp add: filteredProducts_def Let_def)
  then show ?thesis
    by (simp add: subseq_conv_nths)
qed


section \<open>Properties of the speech controller\<close>

lemma playVoice_queue:
  "playVoice text v = v \<or>
   queue (speechSynthesis (playVoice text v)) = [SpeechSynthesisUtterance (the text)]"
  by (simp add: playVoice_def cancel_def speak_def Let_def)

lemma playVoice_short:
  "length (queue (speechSynthesis v)) \<le> 1 \<Longrightarrow> length (queue (speechSynthesis (playVoice text v))) \<le> 1"
  by (simp add: playVoice_def cancel_def speak_def Let_def)

lemma reachable_queue:
  "reachable v \<Longrightarrow> length (queue (speechSynthesis v)) \<le> 1"
proof (induction rule: reachable.induct)
  case (mount v)
  then show ?case by (simp add: mounted_def)
next
  case (clickPlay v t)
  from clickPlay.IH show ?case by (rule playVoice_short)
next
  case (clickPause v)
  then show ?case by (simp add: pauseVoice_def pause_def)
next
  case (clickResume v)
  then show ?case by (simp add: resumeVoice_def resume_def)
next
  case (clickStop v)
  then show ?case by (simp add: stopVoice_def cancel_def)
next
  case (startOver v)
  then show ?case by (simp add: stopVoice_def cancel_def)
next
  case (begins v)
  then show ?case by (simp add: browserBegins_def onstart_def)
next
  case (ends v)
  then show ?case by (simp add: browserEnds_def onend_def dequeue_def)
next
  case (fails v)
  then show ?case by (simp add: browserFails_def onerror_def dequeue_def)
next
  case (lateEnd v)
  then show ?case by (simp add: onend_def)
next
  case (lateError v)
  then show ?case by (simp add: onerror_def)
next
  case (otherState v f)
  then show ?case by simp
qed

lemma reachable_flags:
  "reachable v \<Longrightarrow> isPaused v \<longrightarrow> isPlaying v"
  by (induction rule: reachable.induct)
    (simp_all add: mounted_def playVoice_def pauseVoice_def resumeVoice_def stopVoice_def
      browserBegins_def browserEnds_def browserFails_def onstart_def onend_def onerror_def
      Let_def)

lemma playVoice_speaks:
  "speechSupported v \<Longrightarrow> truthy t \<Longrightarrow>
     queue (speechSynthesis (playVoice (Some t) v)) = [SpeechSynthesisUtterance t]"
  by (simp add: playVoice_def cancel_def speak_def Let_def)

text \<open>
  C3. A play operation that speaks cancels first: whatever the queue held, after
  \<open>playDescription\<close>, \<open>playRecommendation\<close> or \<open>playAdvice\<close> it holds the new utterance
  alone. So in every reachable state of the speech controller the queue of the
  synthesizer holds at most one utterance.
\<close>

theorem play_cancels_before_speak:
  "(reachable v \<longrightarrow> length (queue (speechSynthesis v)) \<le> 1) \<and>
   (speechSupported d \<and> result (useDescribe d) = Some r \<and> truthy (DescribeResponse.description r) \<longrightarrow>
      queue (speechSynthesis (playDescription d))
        = [SpeechSynthesisUtterance (DescribeResponse.description r)]) \<and>
   (speechSupported m \<and> result (useSmartSell m) = Some r' \<and> truthy (sell_text r') \<longrightarrow>
      queue (speechSynthesis (playRecommendation m)) = [SpeechSynthesisUtterance (sell_text r')]) \<and>
   (speechSupported a \<and> result (useFashion a) = Some r'' \<and>
      truthy (FashionAssistantResponse.description r'') \<longrightarrow>
      queue (speechSynthesis (playAdvice a))
        = [SpeechSynthesisUtterance (FashionAssistantResponse.description r'')])"
  using reachable_queue [of v]
  by (simp add: playVoice_speaks playDescription_def playRecommendation_def playAdvice_def)

lemma reachable_describeSpeaking:
  "reachable describeSpeaking"
proof -
  have "reachable describeShown"
    by (rule reachable.mount) (simp add: mounted_def describeShown_def idleSynthesis_def)
  then have "reachable (playDescription describeShown)"
    unfolding playDescription_def
    by (rule reachable.clickPlay) (simp_all add: describeShown_def)
  then show ?thesis
    unfolding describeSpeaking_def
    by (rule reachable.begins)
      (simp_all add: playDescription_def playVoice_def describeShown_def idleSynthesis_def
        truthy_def cancel_def speak_def Let_def)
qed

lemma describeSpeaking_eq:
  "describeSpeaking = describeShown
     \<lparr>isPlaying := True, speechRef := Some (SpeechSynthesisUtterance ''A red shoe''),
      speechSynthesis := \<lparr>queue = [SpeechSynthesisUtterance ''A red shoe''],
        speaking = True, paused = False\<rparr>\<rparr>"
  by (simp add: describeSpeaking_def browserBegins_def onstart_def playDescription_def
      playVoice_def describeShown_def idleSynthesis_def truthy_def cancel_def speak_def Let_def)

theorem play_cancels_before_speak_witness:
  "reachable describeSpeaking \<and>
   length (queue (speechSynthesis describeSpeaking)) \<le> 1 \<and>
   queue (speechSynthesis describeSpeaking) = [SpeechSynthesisUtterance ''A red shoe''] \<and>
   queue (speechSynthesis (playDescription describeSpeaking))
     = [SpeechSynthesisUtterance ''A red shoe''] \<and>
   queue (speechSynthesis (playRecommendation sellSpeaking))
     = [SpeechSynthesisUtterance ''These shades suit you''] \<and>
   queue (speechSynthesis (playAdvice fashionShown))
     = [SpeechSynthesisUtterance ''Wear it with jeans'']"
  using reachable_describeSpeaking
    play_cancels_before_speak [of describeSpeaking describeSpeaking
      "\<lparr>DescribeResponse.description = ''A red shoe'', DescribeResponse.image_id = ''img-1''\<rparr>"
      sellSpeaking smartSellAnswer fashionShown
      "\<lparr>FashionAssistantResponse.image_id = ''img-3'',
        FashionAssistantResponse.description = ''Wear it with jeans''\<rparr>"]
  by (simp add: describeSpeaking_eq describeShown_def sellSpeaking_def browserBegins_def
      onstart_def playRecommendation_def playVoice_def sellShown_def smartSellAnswer_def
      fashionShown_def truthy_def Let_def)

lemma pauseVoice_unsupported:
  "\<not> speechSupported v \<Longrightarrow> pauseVoice v = v"
  by (simp add: pauseVoice_def)

lemma resumeVoice_unsupported:
  "\<not> speechSupported v \<Longrightarrow> resumeVoice v = v"
  by (simp add: resumeVoice_def)

lemma stopVoice_unsupported:
  "\<not> speechSupported v \<Longrightarrow> stopVoice v = v"
  by (simp add: stopVoice_def)

lemma pauseVoice_changes:
  "pauseVoice v \<noteq> v \<Longrightarrow> speaking (speechSynthesis v) \<and> \<not> paused (speechSynthesis v)"
  by (simp add: pauseVoice_def split: if_splits)

lemma resumeVoice_changes:
  "resumeVoice v \<noteq> v \<Longrightarrow> paused (speechSynthesis v)"
  by (simp add: resumeVoice_def split: if_splits)

text \<open>
  C5. Without speech synthesis, pause, resume and stop return the state they were given:
  the flags, the reference and the synthesizer with its queue are untouched. With it,
  pause changes the state only when the synthesizer is speaking and not paused, and
  resume only when the synthesizer is paused.
\<close>

theorem voice_controls_guarded:
  "(\<not> speechSupported d \<longrightarrow>
      pauseDescription d = d \<and> resumeDescription d = d \<and> stopDescription d = d) \<and>
   (\<not> speechSupported m \<longrightarrow>
      pauseRecommendation m = m \<and> resumeRecommendation m = m \<and> stopRecommendation m = m) \<and>
   (pauseDescription d' \<noteq> d' \<longrightarrow>
      speaking (speechSynthesis d') \<and> \<not> paused (speechSynthesis d')) \<and>
   (pauseRecommendation m' \<noteq> m' \<longrightarrow>
      speaking (speechSynthesis m') \<and> \<not> paused (speechSynthesis m')) \<and>
   (resumeDescription d'' \<noteq> d'' \<longrightarrow> paused (speechSynthesis d'')) \<and>
   (resumeRecommendation m'' \<noteq> m'' \<longrightarrow> paused (speechSynthesis m''))"
  unfolding pauseDescription_def resumeDescription_def stopDescription_def
    pauseRecommendation_def resumeRecommendation_def stopRecommendation_def
  using pauseVoice_changes [of d'] pauseVoice_changes [of m']
    resumeVoice_changes [of d''] resumeVoice_changes [of m'']
  by (simp add: pauseVoice_unsupported resumeVoice_unsupported stopVoice_unsupported)

text \<open>The handlers of \<open>FashionAssistant\<close> are guarded in the same way.\<close>

lemma voice_controls_guarded_fashion:
  "\<not> speechSupported a \<Longrightarrow> pauseAdvice a = a \<and> resumeAdvice a = a \<and> stopAdvice a = a"
  "pauseAdvice a \<noteq> a \<Longrightarrow> speaking (speechSynthesis a) \<and> \<not> paused (speechSynthesis a)"
  "resumeAdvice a \<noteq> a \<Longrightarrow> paused (speechSynthesis a)"
  unfolding pauseAdvice_def resumeAdvice_def stopAdvice_def
  by (simp_all add: pauseVoice_unsupported resumeVoice_unsupported stopVoice_unsupported
      pauseVoice_changes resumeVoice_changes)

lemma pauseVoice_acts:
  assumes "speechSupported v" "speaking (speechSynthesis v)" "\<not> paused (speechSynthesis v)"
  shows "pauseVoice v \<noteq> v" and "paused (speechSynthesis (pauseVoice v))"
    and "speechSupported (pauseVoice v)"
proof -
  from assms show "paused (speechSynthesis (pauseVoice v))"
    by (simp add: pauseVoice_def pause_def)
  with assms show "pauseVoice v \<noteq> v"
    by auto
  from assms show "speechSupported (pauseVoice v)"
    by (simp add: pauseVoice_def)
qed

lemma resumeVoice_acts:
  assumes "speechSupported v" "paused (speechSynthesis v)"
  shows "resumeVoice v \<noteq> v"
proof -
  from assms have "\<not> paused (speechSynthesis (resumeVoice v))"
    by (simp add: resumeVoice_def resume_def)
  with assms show ?thesis
    by auto
qed

lemma sellSpeaking_eq:
  "sellSpeaking = sellShown
     \<lparr>isPlaying := True, speechRef := Some (SpeechSynthesisUtterance ''These shades suit you''),
      speechSynthesis := \<lparr>queue = [SpeechSynthesisUtterance ''These shades suit you''],
        speaking = True, paused = False\<rparr>\<rparr>"
  by (simp add: sellSpeaking_def browserBegins_def onstart_def playRecommendation_def
      playVoice_def sellShown_def idleSynthesis_def truthy_def cancel_def speak_def Let_def)

lemma describeSpeaking_voice:
  "speechSupported describeSpeaking" "speaking (speechSynthesis describeSpeaking)"
  "\<not> paused (speechSynthesis describeSpeaking)"
  by (simp_all add: describeSpeaking_eq describeShown_def)

lemma sellSpeaking_voice:
  "speechSupported sellSpeaking" "speaking (speechSynthesis sellSpeaking)"
  "\<not> paused (speechSynthesis sellSpeaking)"
  by (simp_all add: sellSpeaking_eq sellShown_def)

theorem voice_controls_guarded_witness:
  "\<not> speechSupported (describeSpeaking\<lparr>speechSupported := False\<rparr>) \<and>
   pauseDescription (describeSpeaking\<lparr>speechSupported := False\<rparr>)
     = describeSpeaking\<lparr>speechSupported := False\<rparr> \<and>
   resumeDescription (describeSpeaking\<lparr>speechSupported := False\<rparr>)
     = describeSpeaking\<lparr>speechSupported := False\<rparr> \<and>
   stopDescription (describeSpeaking\<lparr>speechSupported := False\<rparr>)
     = describeSpeaking\<lparr>speechSupported := False\<rparr> \<and>
   \<not> speechSupported (sellSpeaking\<lparr>speechSupported := False\<rparr>) \<and>
   stopRecommendation (sellSpeaking\<lparr>speechSupported := False\<rparr>)
     = sellSpeaking\<lparr>speechSupported := False\<rparr> \<and>
   pauseDescription describeSpeaking \<noteq> describeSpeaking \<and>
   speaking (speechSynthesis describeSpeaking) \<and>
   pauseRecommendation sellSpeaking \<noteq> sellSpeaking \<and>
   speaking (speechSynthesis sellSpeaking) \<and>
   resumeDescription (pauseDescription describeSpeaking) \<noteq> pauseDescription describeSpeaking \<and>
   paused (speechSynthesis (pauseDescription describeSpeaking)) \<and>
   resumeRecommendation (pauseRecommendation sellSpeaking) \<noteq> pauseRecommendation sellSpeaking \<and>
   paused (speechSynthesis (pauseRecommendation sellSpeaking))"
proof -
  have 1: "\<not> speechSupported (describeSpeaking\<lparr>speechSupported := False\<rparr>)"
    and 2: "\<not> speechSupported (sellSpeaking\<lparr>speechSupported := False\<rparr>)"
    by simp_all
  have 3: "pauseDescription describeSpeaking \<noteq> describeSpeaking"
    unfolding pauseDescription_def by (rule pauseVoice_acts) (rule describeSpeaking_voice)+
  have 4: "pauseRecommendation sellSpeaking \<noteq> sellSpeaking"
    unfolding pauseRecommendation_def by (rule pauseVoice_acts) (rule sellSpeaking_voice)+
  have 5: "resumeDescription (pauseDescription describeSpeaking) \<noteq> pauseDescription describeSpeaking"
    unfolding pauseDescription_def resumeDescription_def
    by (rule resumeVoice_acts) (rule pauseVoice_acts describeSpeaking_voice)+
  have 6: "resumeRecommendation (pauseRecommendation sellSpeaking) \<noteq> pauseRecommendation sellSpeaking"
    unfolding pauseRecommendation_def resumeRecommendation_def
    by (rule resumeVoice_acts) (rule pauseVoice_acts sellSpeaking_voice)+
  from 1 2 3 4 5 6 show ?thesis
    using voice_controls_guarded [of "describeSpeaking\<lparr>speechSupported := False\<rparr>"
      "sellSpeaking\<lparr>speechSupported := False\<rparr>" describeSpeaking sellSpeaking
      "pauseDescription describeSpeaking" "pauseRecommendation sellSpeaking"]
    by simp
qed

text \<open>
  C9. A modal is mounted with \<open>isPlaying\<close> and \<open>isPaused\<close> both false, and in every state
  reached through the rendered buttons (play, pause, resume, stop), start over and the
  utterance callbacks, \<open>isPaused\<close> holds only if \<open>isPlaying\<close> holds.
\<close>

theorem paused_only_while_playing:
  "(mounted v \<longrightarrow> \<not> isPlaying v \<and> \<not> isPaused v) \<and>
   (reachable w \<longrightarrow> (isPaused w \<longrightarrow> isPlaying w))"
  using reachable_flags [of w]
  by (simp add: mounted_def)

theorem paused_only_while_playing_witness:
  "mounted describeShown \<and> \<not> isPlaying describeShown \<and> \<not> isPaused describeShown \<and>
   reachable (pauseDescription describeSpeaking) \<and>
   isPaused (pauseDescription describeSpeaking) \<and>
   isPlaying (pauseDescription describeSpeaking)"
proof -
  have m: "mounted describeShown"
    by (simp add: mounted_def describeShown_def idleSynthesis_def)
  have r: "reachable (pauseDescription describeSpeaking)"
    unfolding pauseDescription_def
    by (rule reachable.clickPause [OF reachable_describeSpeaking])
      (simp_all add: describeSpeaking_eq describeShown_def)
  have p: "isPaused (pauseDescription describeSpeaking)"
    by (simp add: pauseDescription_def pauseVoice_def describeSpeaking_voice)
  from m r p show ?thesis
    using paused_only_while_playing [of describeShown "pauseDescription describeSpeaking"]
    by simp
qed

text \<open>
  The rendering conditions carry C9. The handler alone does not keep the flags in step:
  run in a state where the synthesizer is speaking and \<open>isPlaying\<close> is false, it sets
  \<open>isPaused\<close>.
\<close>

lemma pauseVoice_unrendered:
  "reachable (onend describeSpeaking) \<and>
   isPaused (pauseVoice (onend describeSpeaking)) \<and>
   \<not> isPlaying (pauseVoice (onend describeSpeaking))"
proof -
  have "reachable (onend describeSpeaking)"
    by (rule reachable.lateEnd [OF reachable_describeSpeaking])
      (simp add: describeSpeaking_eq)
  then show ?thesis
    by (simp add: pauseVoice_def onend_def describeSpeaking_eq describeShown_def)
qed

text \<open>
  The handlers of the modals are steps of the transition system: play, pause, resume and
  stop are the voice handlers themselves, and start over is a stop together with a change
  of the fields outside \<open>voice\<close>.
\<close>

lemma reachable_play:
  "reachable d \<Longrightarrow> speechSupported d \<Longrightarrow> \<not> isPlaying d \<Longrightarrow> reachable (playDescription d)"
  "reachable m \<Longrightarrow> speechSupported m \<Longrightarrow> \<not> isPlaying m \<Longrightarrow> reachable (playRecommendation m)"
  "reachable a \<Longrightarrow> speechSupported a \<Longrightarrow> \<not> isPlaying a \<Longrightarrow> reachable (playAdvice a)"
  unfolding playDescription_def playRecommendation_def playAdvice_def
  by (rule reachable.clickPlay; assumption)+

lemma handleReset_as_steps:
  "handleReset d = voice.more_update (\<lambda>_. voice.more (handleReset d)) (stopVoice d)"
  by (cases d) (simp add: handleReset_def stopDescription_def stopVoice_def Let_def)

lemma handleStartOver_as_steps:
  "handleStartOver m = voice.more_update (\<lambda>_. voice.more (handleStartOver m)) (stopVoice m)"
  by (cases m) (simp add: handleStartOver_def stopRecommendation_def stopVoice_def Let_def)

lemma handleStartOver_FashionAssistant_as_steps:
  "handleStartOver_FashionAssistant a
     = voice.more_update (\<lambda>_. voice.more (handleStartOver_FashionAssistant a)) (stopVoice a)"
  by (cases a) (simp add: handleStartOver_FashionAssistant_def stopAdvice_def stopVoice_def Let_def)

lemma reachable_start_over:
  "reachable d \<Longrightarrow> reachable (handleReset d)"
  "reachable m \<Longrightarrow> reachable (handleStartOver m)"
  "reachable a \<Longrightarrow> reachable (handleStartOver_FashionAssistant a)"
proof -
  show "reachable d \<Longrightarrow> reachable (handleReset d)"
    by (subst handleReset_as_steps) (intro reachable.otherState reachable.startOver)
  show "reachable m \<Longrightarrow> reachable (handleStartOver m)"
    by (subst handleStartOver_as_steps) (intro reachable.otherState reachable.startOver)
  show "reachable a \<Longrightarrow> reachable (handleStartOver_FashionAssistant a)"
    by (subst handleStartOver_FashionAssistant_as_steps)
      (intro reachable.otherState reachable.startOver)
qed

section \<open>Properties of the modals, the hooks and the service wrappers\<close>

text \<open>
  C6. Start over leaves no transient state behind: the stored result (and alt text), the
  selected image and the query text are back at the values they had when the modal was
  mounted, in the describe, smart-sell and fashion-advice modals.
\<close>

theorem start_over_discards:
  "result (useDescribe (handleReset d)) = None \<and>
   altText (useDescribe (handleReset d)) = None \<and>
   selectedImage (handleReset d) = None \<and>
   result (useSmartSell (handleStartOver m)) = None \<and>
   SmartProductSell.userImage (handleStartOver m) = None \<and>
   queryText (handleStartOver m) = [] \<and>
   result (useFashion (handleStartOver_FashionAssistant a)) = None \<and>
   FashionAssistant.userImage (handleStartOver_FashionAssistant a) = None"
  by (simp add: handleReset_def handleStartOver_def handleStartOver_FashionAssistant_def
      stopDescription_def stopRecommendation_def stopAdvice_def stopVoice_def
      reset_def resetDescribe_def Let_def)

text \<open>
  C4. When the request of a service wrapper fails, the hook stores a non-empty error
  string and leaves the stored result as it was.
\<close>

theorem failed_request_surfaces_error:
  "(getProductRecommendation post API_BASE_URL params = Inl e \<longrightarrow>
      (case error (getRecommendation post API_BASE_URL params h) of
         None \<Rightarrow> False | Some msg \<Rightarrow> msg \<noteq> []) \<and>
      result (getRecommendation post API_BASE_URL params h) = result h) \<and>
   (getFashionAdvice post' API_BASE_URL img = Inl e' \<longrightarrow>
      (case error (getFashionAdviceHook post' API_BASE_URL img h') of
         None \<Rightarrow> False | Some msg \<Rightarrow> msg \<noteq> []) \<and>
      result (getFashionAdviceHook post' API_BASE_URL img h') = result h')"
  by (cases e; cases e')
    (simp add: getRecommendation_def getFashionAdviceHook_def settle_def errorMessage_def
      truthy_def)

theorem failed_request_surfaces_error_witness:
  "getProductRecommendation postFails ''/api'' smartSellRequest
     = Inl (AxiosError ''Network Error'') \<and>
   error (getRecommendation postFails ''/api'' smartSellRequest (useSmartSell sellShown))
     = Some ''Network Error'' \<and>
   result (getRecommendation postFails ''/api'' smartSellRequest (useSmartSell sellShown))
     = result (useSmartSell sellShown) \<and>
   getFashionAdvice (\<lambda>url body headers. Inl (AxiosError [])) ''/api'' (File ''me.jpg'')
     = (Inl (AxiosError []) :: AxiosError + FashionAssistantResponse) \<and>
   error (getFashionAdviceHook (\<lambda>url body headers. Inl (AxiosError [])) ''/api'' (File ''me.jpg'')
       (useFashion fashionShown)) = Some ''Request failed'' \<and>
   result (getFashionAdviceHook (\<lambda>url body headers. Inl (AxiosError [])) ''/api'' (File ''me.jpg'')
       (useFashion fashionShown)) = result (useFashion fashionShown)"
proof -
  have 1: "getProductRecommendation postFails ''/api'' smartSellRequest
      = Inl (AxiosError ''Network Error'')"
    by (simp add: getProductRecommendation_def postFails_def)
  have 2: "getFashionAdvice (\<lambda>url body headers. Inl (AxiosError [])) ''/api'' (File ''me.jpg'')
      = (Inl (AxiosError []) :: AxiosError + FashionAssistantResponse)"
    by (simp add: getFashionAdvice_def)
  have 3: "error (getRecommendation postFails ''/api'' smartSellRequest (useSmartSell sellShown))
      = Some ''Network Error''"
    by (simp add: getRecommendation_def settle_def errorMessage_def truthy_def 1)
  have 4: "error (getFashionAdviceHook (\<lambda>url body headers. Inl (AxiosError [])) ''/api''
      (File ''me.jpg'') (useFashion fashionShown)) = Some ''Request failed''"
    by (simp add: getFashionAdviceHook_def settle_def errorMessage_def truthy_def 2)
  from 1 2 3 4 show ?thesis
    using failed_request_surfaces_error [of postFails "''/api''" smartSellRequest
      "AxiosError ''Network Error''" "useSmartSell sellShown"
      "\<lambda>url body headers. Inl (AxiosError [])" "File ''me.jpg''" "AxiosError []"
      "useFashion fashionShown"]
    by simp
qed

text \<open>
  C10. The form body of a smart-sell request is the four entries \<open>image\<close>, \<open>text\<close>,
  \<open>model_name\<close> and \<open>stream\<close>, in this order and no other. \<open>image\<close> and \<open>text\<close> are those
  of the request; \<open>model_name\<close> is the request's when it is given and not empty, and
  \<open>gemini-1.5-pro\<close> otherwise; \<open>stream\<close> is the string \<open>true\<close> when the request asks for it,
  and the string \<open>false\<close> otherwise, so also when it is left out. The wrapper returns the
  body of the response as it came, and lets a failure of the request through.
\<close>

theorem smart_sell_request_body:
  "smartSellFormData params =
     [(''image'', FileEntry (image params)),
      (''text'', StringEntry (text_of params)),
      (''model_name'', StringEntry (case model_name params of
         None \<Rightarrow> ''gemini-1.5-pro''
       | Some m \<Rightarrow> if m = [] then ''gemini-1.5-pro'' else m)),
      (''stream'', StringEntry (case stream params of
         None \<Rightarrow> ''false''
       | Some b \<Rightarrow> if b then ''true'' else ''false''))] \<and>
   map fst (smartSellFormData params) = [''image'', ''text'', ''model_name'', ''stream''] \<and>
   map_of (smartSellFormData params) ''image'' = Some (FileEntry (image params)) \<and>
   map_of (smartSellFormData params) ''text'' = Some (StringEntry (text_of params)) \<and>
   (model_name params = None \<longrightarrow>
      map_of (smartSellFormData params) ''model_name'' = Some (StringEntry ''gemini-1.5-pro'')) \<and>
   (stream params = None \<longrightarrow>
      map_of (smartSellFormData params) ''stream'' = Some (StringEntry ''false'')) \<and>
   (model_name given = Some m \<and> m \<noteq> [] \<longrightarrow>
      map_of (smartSellFormData given) ''model_name'' = Some (StringEntry m)) \<and>
   (stream given = Some b \<longrightarrow>
      map_of (smartSellFormData given) ''stream''
        = Some (StringEntry (if b then ''true'' else ''false''))) \<and>
   (post (API_BASE_URL @ ''/sell-product-from-query'') (smartSellFormData params) multipartHeaders
      = Inr response \<longrightarrow>
      getProductRecommendation post API_BASE_URL params = Inr (data response)) \<and>
   (post' (API_BASE_URL' @ ''/sell-product-from-query'') (smartSellFormData params') multipartHeaders
      = Inl e \<longrightarrow>
      getProductRecommendation post' API_BASE_URL' params' = Inl e)"
proof -
  have body: "smartSellFormData q =
     [(''image'', FileEntry (image q)),
      (''text'', StringEntry (text_of q)),
      (''model_name'', StringEntry (case model_name q of
         None \<Rightarrow> ''gemini-1.5-pro''
       | Some m \<Rightarrow> if m = [] then ''gemini-1.5-pro'' else m)),
      (''stream'', StringEntry (case stream q of
         None \<Rightarrow> ''false''
       | Some b \<Rightarrow> if b then ''true'' else ''false''))]" for q
    by (simp add: smartSellFormData_def appendEntry_def toString_def truthy_def Let_def
        split: option.splits)
  have "getProductRecommendation post API_BASE_URL params = Inr (data response)"
    if "post (API_BASE_URL @ ''/sell-product-from-query'') (smartSellFormData params)
          multipartHeaders = Inr response"
    using that by (simp add: getProductRecommendation_def)
  moreover have "getProductRecommendation post' API_BASE_URL' params' = Inl e"
    if "post' (API_BASE_URL' @ ''/sell-product-from-query'') (smartSellFormData params')
          multipartHeaders = Inl e"
    using that by (simp add: getProductRecommendation_def)
  ultimately show ?thesis
    by (simp add: body)
qed

theorem smart_sell_request_body_witness:
  "model_name smartSellRequest = None \<and> stream smartSellRequest = None \<and>
   smartSellFormData smartSellRequest =
     [(''image'', FileEntry (File ''me.jpg'')),
      (''text'', StringEntry ''sunglasses for summer''),
      (''model_name'', StringEntry ''gemini-1.5-pro''),
      (''stream'', StringEntry ''false'')] \<and>
   map_of (smartSellFormData smartSellRequest) ''model_name''
     = Some (StringEntry ''gemini-1.5-pro'') \<and>
   map_of (smartSellFormData smartSellRequest) ''stream'' = Some (StringEntry ''false'') \<and>
   model_name smartSellRequestChosen = Some ''gemini-2.0-flash'' \<and>
   stream smartSellRequestChosen = Some True \<and>
   map_of (smartSellFormData smartSellRequestChosen) ''model_name''
     = Some (StringEntry ''gemini-2.0-flash'') \<and>
   map_of (smartSellFormData smartSellRequestChosen) ''stream'' = Some (StringEntry ''true'') \<and>
   getProductRecommendation postSucceeds ''/api'' smartSellRequest = Inr smartSellAnswer \<and>
   getProductRecommendation postFails ''/api'' smartSellRequestChosen
     = Inl (AxiosError ''Network Error'')"
proof -
  have 1: "model_name smartSellRequest = None" "stream smartSellRequest = None"
    by (simp_all add: smartSellRequest_def)
  have 2: "model_name smartSellRequestChosen = Some ''gemini-2.0-flash''"
    "stream smartSellRequestChosen = Some True"
    by (simp_all add: smartSellRequestChosen_def)
  have 3: "postSucceeds (''/api'' @ ''/sell-product-from-query'')
      (smartSellFormData smartSellRequest) multipartHeaders
      = Inr \<lparr>status = 200, data = smartSellAnswer\<rparr>"
    by (simp add: postSucceeds_def)
  have 4: "postFails (''/api'' @ ''/sell-product-from-query'')
      (smartSellFormData smartSellRequestChosen) multipartHeaders
      = Inl (AxiosError ''Network Error'')"
    by (simp add: postFails_def)
  have 5: "image smartSellRequest = File ''me.jpg''"
    "text_of smartSellRequest = ''sunglasses for summer''"
    by (simp_all add: smartSellRequest_def)
  from 1 2 3 4 5 show ?thesis
    using smart_sell_request_body [of smartSellRequest smartSellRequestChosen
      "''gemini-2.0-flash''" True postSucceeds "''/api''"
      "\<lparr>status = 200, data = smartSellAnswer\<rparr>" postFails "''/api''"
      smartSellRequestChosen "AxiosError ''Network Error''"]
    by simp
qed

text \<open>
  The request of the modal itself gives both fields, with the values that are also the
  defaults.
\<close>

lemma smartSellFormData_of_modal:
  "smartSellFormData smartSellRequestOfModal =
     [(''image'', FileEntry (File ''me.jpg'')),
      (''text'', StringEntry ''sunglasses for summer''),
      (''model_name'', StringEntry ''gemini-1.5-pro''),
      (''stream'', StringEntry ''false'')]"
  by (simp add: smartSellFormData_def smartSellRequestOfModal_def appendEntry_def toString_def
      truthy_def)

section \<open>Properties of highlightSearchTerm\<close>

lemma parsePattern_literals:
  "\<not> list_ex isParenthesis s \<Longrightarrow>
     parsePattern (s @ rest) lit gs opened = parsePattern rest (lit @ s) gs opened"
  by (induction s arbitrary: lit) (simp_all add: isParenthesis_def)

lemma newRegExp_literal_term:
  assumes "\<not> list_ex isSyntaxCharacter searchTerm"
  shows "newRegExp (''('' @ searchTerm @ '')'')
    = Compiled \<lparr>literal = searchTerm, groups = [(0, length searchTerm)]\<rparr>"
proof -
  from assms have covered:
    "\<not> list_ex (\<lambda>c. isSyntaxCharacter c \<and> \<not> isParenthesis c) (''('' @ searchTerm @ '')'')"
    by (auto simp: list_ex_iff isParenthesis_def)
  from assms have "\<not> list_ex isParenthesis searchTerm"
    by (auto simp: list_ex_iff isParenthesis_def isSyntaxCharacter_def)
  then have "parsePattern (searchTerm @ '')'') [] [(0, 0)] [0]
      = parsePattern '')'' ([] @ searchTerm) [(0, 0)] [0]"
    by (rule parsePattern_literals)
  then have "parsePattern (''('' @ searchTerm @ '')'') [] [] []
      = Inr \<lparr>literal = searchTerm, groups = [(0, length searchTerm)]\<rparr>"
    by simp
  with covered show ?thesis
    by (simp add: newRegExp_def)
qed

lemma concat_splitFrom:
  "groups regex = [(0, length (literal regex))] \<Longrightarrow>
     concat (splitFrom regex pending s) = pending @ s"
proof (induction regex pending s rule: splitFrom.induct)
  case (1 regex pending)
  then show ?case by simp
next
  case (2 regex pending c cs)
  let ?n = "length (literal regex)"
  show ?case
  proof (cases "matchesAt regex (c # cs) \<and> \<not> (literal regex = [] \<and> pending = [])")
    case True
    then have step: "splitFrom regex pending (c # cs)
        = pending # captures regex (c # cs) @ splitFrom regex [] (drop ?n (c # cs))"
      by (subst splitFrom.simps(2)) (rule if_P [OF True])
    from True 2 have "concat (splitFrom regex [] (drop ?n (c # cs))) = [] @ drop ?n (c # cs)"
      by blast
    moreover from 2 have "captures regex (c # cs) = [take ?n (c # cs)]"
      by (simp add: captures_def)
    ultimately have "concat (splitFrom regex pending (c # cs))
        = pending @ take ?n (c # cs) @ drop ?n (c # cs)"
      unfolding step by simp
    then show ?thesis
      by (simp only: append_take_drop_id)
  next
    case False
    then have step: "splitFrom regex pending (c # cs) = splitFrom regex (pending @ [c]) cs"
      by (subst splitFrom.simps(2)) (rule if_not_P [OF False])
    from False 2 have "concat (splitFrom regex (pending @ [c]) cs) = (pending @ [c]) @ cs"
      by blast
    then show ?thesis
      unfolding step by simp
  qed
qed

lemma nodeText_markParts:
  "map nodeText (markParts regex lastIndex parts) = parts"
  by (induction parts arbitrary: lastIndex) (simp_all split: prod.splits bool.splits)

lemma highlight_literal_term:
  assumes "\<not> list_ex isSyntaxCharacter searchTerm" and "trim searchTerm \<noteq> []"
  shows "\<exists>nodes. highlightSearchTerm txt searchTerm = ReturnsNodes nodes \<and>
           concat (map nodeText nodes) = txt"
proof -
  let ?regex = "\<lparr>literal = searchTerm, groups = [(0, length searchTerm)]\<rparr>"
  from assms(2) have "searchTerm \<noteq> []"
    by (auto simp: trim_def)
  then have "\<not> matchesAt ?regex []"
    by (simp add: matchesAt_def)
  then have "concat (split txt ?regex) = txt"
    by (simp add: split_def concat_splitFrom)
  moreover from newRegExp_literal_term [OF assms(1)] assms(2)
  have "highlightSearchTerm txt searchTerm
      = ReturnsNodes (markParts ?regex 0 (split txt ?regex))"
    by (simp add: highlightSearchTerm_def truthy_def)
  ultimately show ?thesis
    by (simp add: nodeText_markParts)
qed

lemma highlight_nested_group:
  "highlightSearchTerm ''xay'' ''(a)''
     = ReturnsNodes [Plain ''x'', Mark ''a'', Plain ''a'', Plain ''y'']"
  by code_simp

lemma highlight_open_parenthesis:
  "highlightSearchTerm txt ''('' = Throws SyntaxError"
  by (simp add: highlightSearchTerm_def truthy_def trim_def isWhiteSpace_def newRegExp_def
      isSyntaxCharacter_def isParenthesis_def)

text \<open>
  C8 does not hold of the code. The search term goes into the pattern as it is, so the
  term \<open>(\<close> gives the pattern \<open>(()\<close>, whose first group is never closed: \<open>new RegExp\<close>
  throws a \<open>SyntaxError\<close>, and \<open>highlightSearchTerm\<close> returns nothing.
\<close>

theorem highlightSearchTerm_parenthesis_throws:
  "highlightSearchTerm ''T-Shirt (red)'' ''('' = Throws SyntaxError"
  by (rule highlight_open_parenthesis)

end
